theory Spec2Isabelle
  imports Complex_Main "HOL-Library.Word"
begin

section \<open>The icon generator \<^verbatim>\<open>generate_app_icons.py\<close>\<close>

text \<open>
  A shallow embedding of the script: the geometry of \<^verbatim>\<open>generate_icon\<close>, the imaging
  calls it makes, the files it touches and the driver \<^verbatim>\<open>main\<close>.

  Modelling decisions.
  \<^item> Python \<^verbatim>\<open>int\<close> is \<open>int\<close>. A Python \<^verbatim>\<open>float\<close> is modelled by the exact rational it
    denotes (\<open>rat\<close>): the rounding error of IEEE doubles is not modelled. Every concrete
    input used below either is a dyadic fraction, on which double arithmetic is exact, or
    gives a product whose distance to the next integer is far above double precision.
  \<^item> An image is its size and its pixel function; an RGBA pixel is four bytes.
  \<^item> Pillow is not part of the script. Its calls are modelled after Pillow's documented
    behaviour and its \<^verbatim>\<open>libImaging\<close> sources; which pixels a rounded rectangle covers
    and what a Gaussian blur computes are parameters (\<open>toolkit\<close>).
  \<^item> \<^verbatim>\<open>rsvg-convert\<close> is a parameter as well: absent, or a function from the source
    file's content and the requested size to an outcome.
  \<^item> A path is the list of its components, as \<^verbatim>\<open>pathlib.Path\<close> holds it.
  \<^item> An exception is a value \<open>Inl e\<close>; what is printed is a list of \<open>line\<close>s.
\<close>

subsection \<open>Python values\<close>

datatype exn = ValueError | OSError | UnidentifiedImageError

text \<open>\<^verbatim>\<open>int(x)\<close> on a float truncates toward zero.\<close>

definition py_int :: "rat \<Rightarrow> int" where
  "py_int x = (if 0 \<le> x then \<lfloor>x\<rfloor> else \<lceil>x\<rceil>)"

text \<open>\<^verbatim>\<open>str(n)\<close> on an int: decimal digits, with a minus sign.\<close>

definition digit_char :: "nat \<Rightarrow> char" where
  "digit_char d = char_of (48 + d)"

fun digits :: "nat \<Rightarrow> string" where
  "digits n = (if n < 10 then [digit_char n] else digits (n div 10) @ [digit_char (n mod 10)])"

declare digits.simps [simp del]

definition py_str :: "int \<Rightarrow> string" where
  "py_str i = (if i < 0 then CHR ''-'' # digits (nat (- i)) else digits (nat i))"

text \<open>
  \<^verbatim>\<open>int(s, 16)\<close> on a slice of at most two characters: surrounding whitespace is
  stripped, one sign may precede the digits, and a slice without a digit raises.
  Characters are code points below 256.
\<close>

definition py_isspace :: "char \<Rightarrow> bool" where
  "py_isspace c = ((of_char c :: nat) \<in> {9, 10, 11, 12, 13, 28, 29, 30, 31, 32, 133, 160})"

definition py_strip :: "string \<Rightarrow> string" where
  "py_strip s = rev (dropWhile py_isspace (rev (dropWhile py_isspace s)))"

definition hex_digit :: "char \<Rightarrow> int option" where
  "hex_digit c =
     (let n = (of_char c :: nat) in
      if 48 \<le> n \<and> n \<le> 57 then Some (int n - 48)
      else if 97 \<le> n \<and> n \<le> 102 then Some (int n - 87)
      else if 65 \<le> n \<and> n \<le> 70 then Some (int n - 55)
      else None)"

definition int16 :: "string \<Rightarrow> exn + int" where
  "int16 s =
     (case py_strip s of
        [c] \<Rightarrow> (case hex_digit c of Some d \<Rightarrow> Inr d | None \<Rightarrow> Inl ValueError)
      | [c, d] \<Rightarrow>
          (case hex_digit d of
             None \<Rightarrow> Inl ValueError
           | Some y \<Rightarrow>
               if c = CHR ''+'' then Inr y
               else if c = CHR ''-'' then Inr (- y)
               else (case hex_digit c of Some x \<Rightarrow> Inr (16 * x + y) | None \<Rightarrow> Inl ValueError))
      | _ \<Rightarrow> Inl ValueError)"

type_synonym rgb = "int \<times> int \<times> int"

definition hex_to_rgb :: "string \<Rightarrow> exn + rgb" where
  "hex_to_rgb hex_color =
     (let h = dropWhile (\<lambda>c. c = CHR ''#'') hex_color in
      case int16 (take 2 h) of
        Inl e \<Rightarrow> Inl e
      | Inr r \<Rightarrow>
          (case int16 (take 2 (drop 2 h)) of
             Inl e \<Rightarrow> Inl e
           | Inr g \<Rightarrow>
               (case int16 (take 2 (drop 4 h)) of
                  Inl e \<Rightarrow> Inl e
                | Inr b \<Rightarrow> Inr (r, g, b))))"

subsection \<open>The size table\<close>

definition ICON_SIZES :: "(int \<times> string) list" where
  "ICON_SIZES =
     [(40, ''icon_40.png''), (60, ''icon_60.png''), (58, ''icon_58.png''),
      (87, ''icon_87.png''), (80, ''icon_80.png''), (120, ''icon_120.png''),
      (180, ''icon_180.png''),
      (20, ''icon_20.png''), (29, ''icon_29.png''), (76, ''icon_76.png''),
      (152, ''icon_152.png''), (167, ''icon_167.png''),
      (1024, ''icon_1024.png''),
      (16, ''icon_16.png''), (32, ''icon_32.png''), (64, ''icon_64.png''),
      (128, ''icon_128.png''), (256, ''icon_256.png''), (512, ''icon_512.png'')]"

subsection \<open>The parameters of \<^verbatim>\<open>generate_icon\<close>\<close>

record style =
  bg_color :: rgb
  padding_ratio :: rat
  scale_ratio :: rat
  add_rounded_corners :: bool
  corner_padding_ratio :: rat
  add_shadow :: bool
  shadow_offset_x :: rat
  shadow_offset_y :: rat
  shadow_blur :: rat
  shadow_opacity :: rat

text \<open>
  The keyword parameters a caller may leave out, and the defaults of the signature
  (lines 82 to 85 of the script).
\<close>

record kwargs =
  kw_padding_ratio :: "rat option"
  kw_scale_ratio :: "rat option"
  kw_add_rounded_corners :: "bool option"
  kw_corner_padding_ratio :: "rat option"
  kw_add_shadow :: "bool option"
  kw_shadow_offset_x :: "rat option"
  kw_shadow_offset_y :: "rat option"
  kw_shadow_blur :: "rat option"
  kw_shadow_opacity :: "rat option"

definition or_default :: "'a option \<Rightarrow> 'a \<Rightarrow> 'a" where
  "or_default v d = (case v of Some x \<Rightarrow> x | None \<Rightarrow> d)"

definition signature_defaults :: "rgb \<Rightarrow> kwargs \<Rightarrow> style" where
  "signature_defaults bg kw =
     \<lparr>bg_color = bg,
      padding_ratio = or_default (kw_padding_ratio kw) (15 / 100),
      scale_ratio = or_default (kw_scale_ratio kw) 1,
      add_rounded_corners = or_default (kw_add_rounded_corners kw) True,
      corner_padding_ratio = or_default (kw_corner_padding_ratio kw) 0,
      add_shadow = or_default (kw_add_shadow kw) False,
      shadow_offset_x = or_default (kw_shadow_offset_x kw) 0,
      shadow_offset_y = or_default (kw_shadow_offset_y kw) (2 / 100),
      shadow_blur = or_default (kw_shadow_blur kw) (5 / 100),
      shadow_opacity = or_default (kw_shadow_opacity kw) (9 / 10)\<rparr>"

subsection \<open>Geometry (lines 104 to 132)\<close>

definition rounded_icon_size :: "int \<Rightarrow> style \<Rightarrow> int" where
  "rounded_icon_size sz st =
     (if add_rounded_corners st \<and> corner_padding_ratio st > 0
      then py_int (of_int sz * (1 - 2 * corner_padding_ratio st))
      else sz)"

definition rounded_icon_offset :: "int \<Rightarrow> style \<Rightarrow> int" where
  "rounded_icon_offset sz st =
     (if add_rounded_corners st \<and> corner_padding_ratio st > 0
      then py_int (of_int sz * corner_padding_ratio st)
      else 0)"

definition content_size :: "int \<Rightarrow> style \<Rightarrow> int" where
  "content_size sz st =
     py_int (of_int (rounded_icon_size sz st) * (1 - 2 * padding_ratio st))"

definition scaled_content_size :: "int \<Rightarrow> style \<Rightarrow> int" where
  "scaled_content_size sz st = py_int (of_int (content_size sz st) * scale_ratio st)"

definition offset :: "int \<Rightarrow> style \<Rightarrow> int" where
  "offset sz st = (rounded_icon_size sz st - scaled_content_size sz st) div 2"

definition radius_ratio :: rat where
  "radius_ratio = 2237 / 10000"

definition corner_radius :: "int \<Rightarrow> int" where
  "corner_radius n = py_int (of_int n * radius_ratio)"

definition shadow_fill_alpha :: "style \<Rightarrow> int" where
  "shadow_fill_alpha st = py_int (255 * shadow_opacity st)"

subsection \<open>Images and the Pillow calls the script makes\<close>

type_synonym u8 = "8 word"

type_synonym rgba = "u8 \<times> u8 \<times> u8 \<times> u8"

record 'p image =
  width :: int
  height :: int
  pixel :: "int \<Rightarrow> int \<Rightarrow> 'p"

text \<open>
  What the script leaves to Pillow's rasteriser: whether \<^verbatim>\<open>rounded_rectangle\<close> with the
  corners \<open>(x0, y0, x1, y1)\<close> and a radius fills the pixel \<open>(x, y)\<close>, and the pixels a
  Gaussian blur of a radius computes (the filtered image has the size of its input).
\<close>

record toolkit =
  rr_inside :: "int \<times> int \<times> int \<times> int \<Rightarrow> int \<Rightarrow> int \<Rightarrow> int \<Rightarrow> bool"
  gaussian :: "int \<Rightarrow> rgba image \<Rightarrow> int \<Rightarrow> int \<Rightarrow> rgba"

text \<open>A colour component given as an int is clipped to a byte (\<^verbatim>\<open>CLIP8\<close>).\<close>

definition clip8 :: "int \<Rightarrow> u8" where
  "clip8 v = (if v \<le> 0 then 0 else if 255 \<le> v then 255 else of_int v)"

definition transparent :: rgba where
  "transparent = (0, 0, 0, 0)"

text \<open>\<^verbatim>\<open>bg_color + (255,)\<close>\<close>

definition opaque_color :: "rgb \<Rightarrow> rgba" where
  "opaque_color c = (case c of (r, g, b) \<Rightarrow> (clip8 r, clip8 g, clip8 b, 255))"

text \<open>\<^verbatim>\<open>Image.new(mode, (w, h), color)\<close> raises \<^verbatim>\<open>ValueError\<close> on a negative size.\<close>

definition image_new :: "int \<Rightarrow> int \<Rightarrow> 'p \<Rightarrow> exn + 'p image" where
  "image_new w h c =
     (if w < 0 \<or> h < 0 then Inl ValueError
      else Inr \<lparr>width = w, height = h, pixel = (\<lambda>x y. c)\<rparr>)"

definition inside :: "'p image \<Rightarrow> int \<Rightarrow> int \<Rightarrow> bool" where
  "inside im x y = (0 \<le> x \<and> x < width im \<and> 0 \<le> y \<and> y < height im)"

text \<open>
  \<^verbatim>\<open>BLEND8(mask, in1, in2)\<close> of \<^verbatim>\<open>libImaging\<close>: the byte
  \<open>(in1 * (255 - mask) + in2 * mask) / 255\<close>, rounded by \<^verbatim>\<open>DIV255\<close>.
\<close>

definition div255 :: "nat \<Rightarrow> nat" where
  "div255 a = (let tmp = a + 128 in (tmp div 256 + tmp) div 256)"

definition blend8 :: "u8 \<Rightarrow> u8 \<Rightarrow> u8 \<Rightarrow> u8" where
  "blend8 msk in1 in2 = of_nat (div255 (unat in1 * (255 - unat msk) + unat in2 * unat msk))"

definition alpha :: "rgba \<Rightarrow> u8" where
  "alpha p = (case p of (r, g, b, a) \<Rightarrow> a)"

definition blend_pixel :: "u8 \<Rightarrow> rgba \<Rightarrow> rgba \<Rightarrow> rgba" where
  "blend_pixel m out inp =
     (case out of (r1, g1, b1, a1) \<Rightarrow>
      case inp of (r2, g2, b2, a2) \<Rightarrow>
        (blend8 m r1 r2, blend8 m g1 g2, blend8 m b1 b2, blend8 m a1 a2))"

text \<open>
  \<^verbatim>\<open>dst.paste(src, (x0, y0), src)\<close>, an RGBA image pasted with itself as the mask
  (\<^verbatim>\<open>paste_mask_RGBA\<close>): inside the box of \<open>src\<close>, clipped to \<open>dst\<close>, every band of
  \<open>dst\<close>, the alpha band included, is blended with the band of \<open>src\<close>, weighted by the
  alpha of \<open>src\<close>. The size of \<open>dst\<close> does not change.
\<close>

definition paste_masked :: "rgba image \<Rightarrow> rgba image \<Rightarrow> int \<times> int \<Rightarrow> rgba image" where
  "paste_masked dst src box =
     (case box of (x0, y0) \<Rightarrow>
        dst\<lparr>pixel := (\<lambda>x y.
          if inside dst x y \<and> inside src (x - x0) (y - y0)
          then blend_pixel (alpha (pixel src (x - x0) (y - y0)))
                 (pixel dst x y) (pixel src (x - x0) (y - y0))
          else pixel dst x y)\<rparr>)"

text \<open>\<^verbatim>\<open>dst.paste(src, (x0, y0))\<close> without a mask copies the pixels.\<close>

definition paste :: "rgba image \<Rightarrow> rgba image \<Rightarrow> int \<times> int \<Rightarrow> rgba image" where
  "paste dst src box =
     (case box of (x0, y0) \<Rightarrow>
        dst\<lparr>pixel := (\<lambda>x y.
          if inside dst x y \<and> inside src (x - x0) (y - y0)
          then pixel src (x - x0) (y - y0)
          else pixel dst x y)\<rparr>)"

text \<open>\<^verbatim>\<open>im.putalpha(mask)\<close> replaces the alpha band by the mask.\<close>

definition putalpha :: "rgba image \<Rightarrow> u8 image \<Rightarrow> rgba image" where
  "putalpha im msk =
     im\<lparr>pixel := (\<lambda>x y. case pixel im x y of (r, g, b, a) \<Rightarrow> (r, g, b, pixel msk x y))\<rparr>"

text \<open>
  \<^verbatim>\<open>ImageDraw.Draw(im).rounded_rectangle(box, radius, fill)\<close> sets the covered pixels
  to the fill colour (no blending: the draw mode is the image's own mode).
\<close>

definition rounded_rectangle ::
  "toolkit \<Rightarrow> 'p image \<Rightarrow> int \<times> int \<times> int \<times> int \<Rightarrow> int \<Rightarrow> 'p \<Rightarrow> 'p image" where
  "rounded_rectangle tk im box radius fill =
     im\<lparr>pixel := (\<lambda>x y. if inside im x y \<and> rr_inside tk box radius x y then fill
                          else pixel im x y)\<rparr>"

text \<open>\<^verbatim>\<open>im.filter(ImageFilter.GaussianBlur(radius))\<close>\<close>

definition gaussian_blur :: "toolkit \<Rightarrow> int \<Rightarrow> rgba image \<Rightarrow> rgba image" where
  "gaussian_blur tk radius im = im\<lparr>pixel := gaussian tk radius im\<rparr>"

subsection \<open>\<^verbatim>\<open>create_rounded_rectangle_mask\<close> (lines 48 to 59)\<close>

definition create_rounded_rectangle_mask :: "toolkit \<Rightarrow> int \<Rightarrow> exn + u8 image" where
  "create_rounded_rectangle_mask tk sz =
     (case image_new sz sz 0 of
        Inl e \<Rightarrow> Inl e
      | Inr msk \<Rightarrow> Inr (rounded_rectangle tk msk (0, 0, sz, sz) (corner_radius sz) 255))"

subsection \<open>Files, the rasteriser and standard output\<close>

type_synonym path = "string list"

text \<open>A file holds bytes (the vector source, say) or a PNG, given by its decoded pixels.\<close>

datatype fdata = Bytes string | Png "rgba image"

text \<open>
  One run of \<^verbatim>\<open>rsvg-convert\<close>: it writes the raster and exits with status 0, or it
  exits with another status, its standard error text, and possibly a file written.
\<close>

datatype rsvg_outcome = RsvgOk "rgba image" | RsvgFail string "fdata option"

type_synonym rsvg = "(fdata option \<Rightarrow> int \<Rightarrow> rsvg_outcome) option"

datatype line =
    SvgMissing path
  | ToolMissing
  | InstallHint
  | ConvertFailed string
  | Banner
  | SvgSource path
  | OutputDir path
  | BgColor string rgb
  | Padding rat
  | Scale rat
  | Rounded bool
  | CornerPadding rat
  | ShadowOn
  | ShadowOffsetX rat
  | ShadowOffsetY rat
  | ShadowBlur rat
  | ShadowOpacity rat
  | Blank
  | Generating int string
  | Mark bool
  | Done nat nat
  | NextStep
  | CopyHint path

record world =
  files :: "path \<rightharpoonup> fdata"
  dirs :: "path set"
  stdout :: "line list"

definition print :: "world \<Rightarrow> line list \<Rightarrow> world" where
  "print w ls = w\<lparr>stdout := stdout w @ ls\<rparr>"

definition write_file :: "world \<Rightarrow> path \<Rightarrow> fdata \<Rightarrow> world" where
  "write_file w p d = w\<lparr>files := (files w)(p \<mapsto> d)\<rparr>"

text \<open>\<^verbatim>\<open>Path.exists()\<close>\<close>

definition path_exists :: "world \<Rightarrow> path \<Rightarrow> bool" where
  "path_exists w p = (p \<in> dom (files w) \<or> p \<in> dirs w)"

text \<open>
  \<^verbatim>\<open>Path.mkdir(parents=True, exist_ok=True)\<close>: the directory and its missing ancestors
  are created; it raises when the path or an ancestor is a file.
\<close>

fun ancestors_and_self :: "path \<Rightarrow> path list" where
  "ancestors_and_self [] = []"
| "ancestors_and_self (c # cs) = [c] # map ((#) c) (ancestors_and_self cs)"

definition mkdir_parents :: "world \<Rightarrow> path \<Rightarrow> exn + world" where
  "mkdir_parents w p =
     (if \<exists>q \<in> set (ancestors_and_self p). q \<in> dom (files w) then Inl OSError
      else Inr (w\<lparr>dirs := dirs w \<union> set (ancestors_and_self p)\<rparr>))"

text \<open>
  \<^verbatim>\<open>icon.save(output_path, 'PNG')\<close> raises when the file cannot be opened for writing:
  its directory does not exist (a path of one component lies in the working
  directory), or the path is a directory. Permissions are not modelled, nor is the
  encoding of an empty image (the sizes of the table are positive).
\<close>

definition save :: "world \<Rightarrow> path \<Rightarrow> rgba image \<Rightarrow> exn + world" where
  "save w p im =
     (if p \<noteq> [] \<and> (butlast p = [] \<or> butlast p \<in> dirs w) \<and> p \<notin> dirs w
      then Inr (write_file w p (Png im))
      else Inl OSError)"

text \<open>\<^verbatim>\<open>os.remove(path)\<close>\<close>

definition os_remove :: "world \<Rightarrow> path \<Rightarrow> exn + world" where
  "os_remove w p =
     (if p \<in> dom (files w) then Inr (w\<lparr>files := (files w)(p := None)\<rparr>) else Inl OSError)"

text \<open>\<^verbatim>\<open>Image.open(path).convert('RGBA')\<close>\<close>

definition image_open :: "fdata option \<Rightarrow> exn + rgba image" where
  "image_open f =
     (case f of
        None \<Rightarrow> Inl OSError
      | Some (Bytes b) \<Rightarrow> Inl UnidentifiedImageError
      | Some (Png im) \<Rightarrow> Inr im)"

subsection \<open>\<^verbatim>\<open>convert_svg_to_png\<close> (lines 62 to 79)\<close>

definition convert_svg_to_png :: "rsvg \<Rightarrow> path \<Rightarrow> path \<Rightarrow> int \<Rightarrow> world \<Rightarrow> bool \<times> world" where
  "convert_svg_to_png tool svg_path output_path sz w =
     (case tool of
        None \<Rightarrow> (False, print w [ToolMissing, InstallHint])
      | Some run \<Rightarrow>
          (case run (files w svg_path) sz of
             RsvgOk im \<Rightarrow> (True, write_file w output_path (Png im))
           | RsvgFail err wrote \<Rightarrow>
               (False,
                print (case wrote of None \<Rightarrow> w | Some d \<Rightarrow> write_file w output_path d)
                  [ConvertFailed err])))"

subsection \<open>\<^verbatim>\<open>generate_icon\<close> (lines 82 to 194)\<close>

definition temp_svg_png :: "int \<Rightarrow> path" where
  "temp_svg_png sz = [''/'', ''tmp'', ''temp_icon_'' @ py_str sz @ ''.png'']"

text \<open>Lines 125 to 135: the opaque background with the content pasted on it.\<close>

definition background :: "int \<Rightarrow> style \<Rightarrow> fdata option \<Rightarrow> exn + rgba image" where
  "background sz st tmp =
     (let rs = rounded_icon_size sz st in
      case image_new rs rs (opaque_color (bg_color st)) of
        Inl e \<Rightarrow> Inl e
      | Inr icon0 \<Rightarrow>
          (case image_open tmp of
             Inl e \<Rightarrow> Inl e
           | Inr content \<Rightarrow> Inr (paste_masked icon0 content (offset sz st, offset sz st))))"

text \<open>Lines 139 to 142.\<close>

definition round_corners :: "toolkit \<Rightarrow> int \<Rightarrow> rgba image \<Rightarrow> exn + rgba image" where
  "round_corners tk rs icon0 =
     (case create_rounded_rectangle_mask tk rs of
        Inl e \<Rightarrow> Inl e
      | Inr msk \<Rightarrow>
          (case image_new rs rs transparent of
             Inl e \<Rightarrow> Inl e
           | Inr blank \<Rightarrow> Inr (putalpha (paste blank icon0 (0, 0)) msk)))"

text \<open>Lines 151 to 177.\<close>

definition shadow_layer :: "toolkit \<Rightarrow> int \<Rightarrow> style \<Rightarrow> exn + rgba image" where
  "shadow_layer tk sz st =
     (case image_new sz sz transparent of
        Inl e \<Rightarrow> Inl e
      | Inr blank \<Rightarrow>
          (let radius = corner_radius (rounded_icon_size sz st);
               shadow_offset_x_px = py_int (of_int sz * shadow_offset_x st);
               shadow_offset_y_px = py_int (of_int sz * shadow_offset_y st);
               shadow_left = rounded_icon_offset sz st + shadow_offset_x_px;
               shadow_top = rounded_icon_offset sz st + shadow_offset_y_px;
               shadow_right = shadow_left + rounded_icon_size sz st;
               shadow_bottom = shadow_top + rounded_icon_size sz st;
               drawn = rounded_rectangle tk blank
                         (shadow_left, shadow_top, shadow_right, shadow_bottom) radius
                         (0, 0, 0, clip8 (shadow_fill_alpha st));
               blur_radius = py_int (of_int sz * shadow_blur st)
           in Inr (if blur_radius > 0 then gaussian_blur tk blur_radius drawn else drawn)))"

text \<open>
  The images the function holds when it reaches \<^verbatim>\<open>icon.save\<close>: \<open>icon\<close> is the one
  saved; the others are \<open>None\<close> when their branch was not taken.
\<close>

record locals =
  icon :: "rgba image"
  rounded_output :: "rgba image option"
  shadow :: "rgba image option"
  final_output :: "rgba image option"

definition render :: "toolkit \<Rightarrow> int \<Rightarrow> style \<Rightarrow> fdata option \<Rightarrow> exn + locals" where
  "render tk sz st tmp =
     (case background sz st tmp of
        Inl e \<Rightarrow> Inl e
      | Inr icon0 \<Rightarrow>
          if add_rounded_corners st then
            (case round_corners tk (rounded_icon_size sz st) icon0 of
               Inl e \<Rightarrow> Inl e
             | Inr rounded \<Rightarrow>
                 if corner_padding_ratio st > 0 \<or> add_shadow st then
                   (case image_new sz sz transparent of
                      Inl e \<Rightarrow> Inl e
                    | Inr blank \<Rightarrow>
                        if add_shadow st then
                          (case shadow_layer tk sz st of
                             Inl e \<Rightarrow> Inl e
                           | Inr sh \<Rightarrow>
                               (let final =
                                      paste_masked (paste_masked blank sh (0, 0)) rounded
                                        (rounded_icon_offset sz st, rounded_icon_offset sz st)
                                in Inr \<lparr>icon = final, rounded_output = Some rounded,
                                        shadow = Some sh, final_output = Some final\<rparr>))
                        else
                          (let final =
                                 paste_masked blank rounded
                                   (rounded_icon_offset sz st, rounded_icon_offset sz st)
                           in Inr \<lparr>icon = final, rounded_output = Some rounded,
                                   shadow = None, final_output = Some final\<rparr>))
                 else Inr \<lparr>icon = rounded, rounded_output = Some rounded,
                           shadow = None, final_output = None\<rparr>)
          else Inr \<lparr>icon = icon0, rounded_output = None, shadow = None, final_output = None\<rparr>)"

definition generate_icon ::
  "toolkit \<Rightarrow> rsvg \<Rightarrow> path \<Rightarrow> path \<Rightarrow> int \<Rightarrow> style \<Rightarrow> world \<Rightarrow> (exn + bool) \<times> world" where
  "generate_icon tk tool svg_path output_path sz st w =
     (case convert_svg_to_png tool svg_path (temp_svg_png sz) (scaled_content_size sz st) w of
        (False, w1) \<Rightarrow> (Inr False, w1)
      | (True, w1) \<Rightarrow>
          (case render tk sz st (files w1 (temp_svg_png sz)) of
             Inl e \<Rightarrow> (Inl e, w1)
           | Inr l \<Rightarrow>
               (case save w1 output_path (icon l) of
                  Inl e \<Rightarrow> (Inl e, w1)
                | Inr w2 \<Rightarrow>
                    (case os_remove w2 (temp_svg_png sz) of
                       Inl e \<Rightarrow> (Inl e, w2)
                     | Inr w3 \<Rightarrow> (Inr True, w3)))))"

text \<open>A call that leaves keyword parameters out.\<close>

definition generate_icon_call ::
  "toolkit \<Rightarrow> rsvg \<Rightarrow> path \<Rightarrow> path \<Rightarrow> int \<Rightarrow> rgb \<Rightarrow> kwargs \<Rightarrow> world \<Rightarrow> (exn + bool) \<times> world" where
  "generate_icon_call tk tool svg_path output_path sz bg kw =
     generate_icon tk tool svg_path output_path sz (signature_defaults bg kw)"

subsection \<open>\<^verbatim>\<open>main\<close> (lines 197 to 287)\<close>

text \<open>The command line after \<^verbatim>\<open>argparse\<close> has typed it: an option not given is \<open>None\<close>.\<close>

record argv =
  svg_file :: path
  opt_output_dir :: "path option"
  opt_color :: "string option"
  opt_padding :: "rat option"
  opt_scale :: "rat option"
  opt_corner_padding :: "rat option"
  opt_no_rounded_corners :: bool
  opt_shadow :: bool
  opt_shadow_offset_x :: "rat option"
  opt_shadow_offset_y :: "rat option"
  opt_shadow_blur :: "rat option"
  opt_shadow_opacity :: "rat option"

record args =
  arg_svg_file :: path
  arg_output_dir :: path
  arg_color :: string
  arg_padding :: rat
  arg_scale :: rat
  arg_corner_padding :: rat
  arg_no_rounded_corners :: bool
  arg_shadow :: bool
  arg_shadow_offset_x :: rat
  arg_shadow_offset_y :: rat
  arg_shadow_blur :: rat
  arg_shadow_opacity :: rat

definition parse_args :: "argv \<Rightarrow> args" where
  "parse_args a =
     \<lparr>arg_svg_file = svg_file a,
      arg_output_dir = or_default (opt_output_dir a) [''generated-icons''],
      arg_color = or_default (opt_color a) ''#71CAEE'',
      arg_padding = or_default (opt_padding a) (15 / 100),
      arg_scale = or_default (opt_scale a) 1,
      arg_corner_padding = or_default (opt_corner_padding a) 0,
      arg_no_rounded_corners = opt_no_rounded_corners a,
      arg_shadow = opt_shadow a,
      arg_shadow_offset_x = or_default (opt_shadow_offset_x a) 0,
      arg_shadow_offset_y = or_default (opt_shadow_offset_y a) (2 / 100),
      arg_shadow_blur = or_default (opt_shadow_blur a) (5 / 100),
      arg_shadow_opacity = or_default (opt_shadow_opacity a) (3 / 10)\<rparr>"

text \<open>The arguments of the call at lines 263 to 277.\<close>

definition style_of :: "args \<Rightarrow> rgb \<Rightarrow> style" where
  "style_of a bg =
     \<lparr>bg_color = bg,
      padding_ratio = arg_padding a,
      scale_ratio = arg_scale a,
      add_rounded_corners = (\<not> arg_no_rounded_corners a),
      corner_padding_ratio = arg_corner_padding a,
      add_shadow = arg_shadow a,
      shadow_offset_x = arg_shadow_offset_x a,
      shadow_offset_y = arg_shadow_offset_y a,
      shadow_blur = arg_shadow_blur a,
      shadow_opacity = arg_shadow_opacity a\<rparr>"

text \<open>Lines 240 to 255.\<close>

definition banner :: "args \<Rightarrow> rgb \<Rightarrow> line list" where
  "banner a bg =
     [Banner, SvgSource (arg_svg_file a), OutputDir (arg_output_dir a),
      BgColor (arg_color a) bg, Padding (arg_padding a * 100), Scale (arg_scale a * 100),
      Rounded (\<not> arg_no_rounded_corners a)]
     @ (if \<not> arg_no_rounded_corners a \<and> arg_corner_padding a > 0
        then [CornerPadding (arg_corner_padding a * 100)] else [])
     @ (if arg_shadow a
        then [ShadowOn, ShadowOffsetX (arg_shadow_offset_x a * 100),
              ShadowOffsetY (arg_shadow_offset_y a * 100),
              ShadowBlur (arg_shadow_blur a * 100),
              ShadowOpacity (arg_shadow_opacity a * 100)]
        else [])
     @ [Blank]"

text \<open>
  The loop of lines 258 to 281 over a list of sizes, with the success counter. An
  exception of \<^verbatim>\<open>generate_icon\<close> is not caught: it ends the loop.
\<close>

fun generate_all ::
  "toolkit \<Rightarrow> rsvg \<Rightarrow> path \<Rightarrow> path \<Rightarrow> style \<Rightarrow> (int \<times> string) list \<Rightarrow> nat \<Rightarrow> world
     \<Rightarrow> (exn + nat) \<times> world" where
  "generate_all tk tool svg_path output_dir st [] success_count w = (Inr success_count, w)"
| "generate_all tk tool svg_path output_dir st ((sz, filename) # rest) success_count w =
     (case generate_icon tk tool svg_path (output_dir @ [filename]) sz st
             (print w [Generating sz filename]) of
        (Inl e, w1) \<Rightarrow> (Inl e, w1)
      | (Inr True, w1) \<Rightarrow>
          generate_all tk tool svg_path output_dir st rest (success_count + 1)
            (print w1 [Mark True])
      | (Inr False, w1) \<Rightarrow>
          generate_all tk tool svg_path output_dir st rest success_count
            (print w1 [Mark False]))"

text \<open>
  The result is the exit status of the process and the world it leaves:
  \<^verbatim>\<open>sys.exit(1)\<close> and an uncaught exception give status 1, returning from \<^verbatim>\<open>main\<close>
  gives status 0.
\<close>

definition main :: "toolkit \<Rightarrow> rsvg \<Rightarrow> argv \<Rightarrow> world \<Rightarrow> int \<times> world" where
  "main tk tool av w =
     (let a = parse_args av in
      if \<not> path_exists w (arg_svg_file a) then (1, print w [SvgMissing (arg_svg_file a)])
      else
        (case mkdir_parents w (arg_output_dir a) of
           Inl e \<Rightarrow> (1, w)
         | Inr w1 \<Rightarrow>
             (case hex_to_rgb (arg_color a) of
                Inl e \<Rightarrow> (1, w1)
              | Inr bg \<Rightarrow>
                  (case generate_all tk tool (arg_svg_file a) (arg_output_dir a)
                          (style_of a bg) ICON_SIZES 0 (print w1 (banner a bg)) of
                     (Inl e, w2) \<Rightarrow> (1, w2)
                   | (Inr n, w2) \<Rightarrow>
                       (0, print w2 [Blank, Done n (length ICON_SIZES), Blank, NextStep,
                                     CopyHint (arg_output_dir a)])))))"

text \<open>A command line that gives the source file and no option.\<close>

definition argv_defaults :: "path \<Rightarrow> argv" where
  "argv_defaults svg =
     \<lparr>svg_file = svg, opt_output_dir = None, opt_color = None, opt_padding = None,
      opt_scale = None, opt_corner_padding = None, opt_no_rounded_corners = False,
      opt_shadow = False, opt_shadow_offset_x = None, opt_shadow_offset_y = None,
      opt_shadow_blur = None, opt_shadow_opacity = None\<rparr>"

subsection \<open>Sample inputs\<close>

text \<open>
  Concrete inputs on which the model is evaluated: a toolkit whose rounded rectangle is
  the plain rectangle and whose blur is the identity, a rasteriser that renders every
  source as a half-transparent black square of the requested size, a world that holds
  the source \<^verbatim>\<open>icon.svg\<close> and the directory \<^verbatim>\<open>out\<close>, and the style of a command
  line that gives at most \<^verbatim>\<open>--no-rounded-corners\<close> and \<^verbatim>\<open>--shadow\<close>.
\<close>

definition sample_toolkit :: toolkit where
  "sample_toolkit =
     \<lparr>rr_inside = (\<lambda>box radius x y.
          case box of (x0, y0, x1, y1) \<Rightarrow> x0 \<le> x \<and> x \<le> x1 \<and> y0 \<le> y \<and> y \<le> y1),
      gaussian = (\<lambda>radius im. pixel im)\<rparr>"

definition flat_image :: "int \<Rightarrow> rgba \<Rightarrow> rgba image" where
  "flat_image n c = \<lparr>width = n, height = n, pixel = (\<lambda>x y. c)\<rparr>"

definition sample_rsvg :: rsvg where
  "sample_rsvg =
     Some (\<lambda>f n. case f of
                    Some (Bytes b) \<Rightarrow> RsvgOk (flat_image n (0, 0, 0, 128))
                  | _ \<Rightarrow> RsvgFail ''error reading the source'' None)"

definition sample_world :: world where
  "sample_world =
     \<lparr>files = [[''icon.svg''] \<mapsto> Bytes ''<svg/>''], dirs = {[''out'']}, stdout = []\<rparr>"

definition cli_style :: "bool \<Rightarrow> bool \<Rightarrow> style" where
  "cli_style no_rounded with_shadow =
     style_of (parse_args ((argv_defaults [''icon.svg''])
                 \<lparr>opt_no_rounded_corners := no_rounded, opt_shadow := with_shadow\<rparr>))
       (113, 202, 238)"

text \<open>
  A rasteriser that exits with an error after it has written a file, and a world in
  which the path of the first output file is a directory.
\<close>

definition failing_rsvg :: rsvg where
  "failing_rsvg = Some (\<lambda>f n. RsvgFail ''rendering failed'' (Some (Bytes ''partial output'')))"

definition blocked_world :: world where
  "blocked_world = sample_world\<lparr>dirs := {[''generated-icons'', ''icon_40.png'']}\<rparr>"

subsection \<open>Observations on two runs\<close>

text \<open>The sizes whose generation was started, read from what was printed.\<close>

fun attempts :: "line list \<Rightarrow> (int \<times> string) list" where
  "attempts [] = []"
| "attempts (Generating sz f # ls) = (sz, f) # attempts ls"
| "attempts (l # ls) = attempts ls"

text \<open>
  Two runs, one from \<open>a\<close> to \<open>a'\<close> and one from \<open>b\<close> to \<open>b'\<close>, had the same effect:
  neither changed the directories, every file either ends with the same content in both
  or was left as it was in both, and both printed the same lines.
\<close>

definition same_effect :: "world \<Rightarrow> world \<Rightarrow> world \<Rightarrow> world \<Rightarrow> bool" where
  "same_effect a a' b b' \<longleftrightarrow>
     dirs a' = dirs a \<and> dirs b' = dirs b
     \<and> (\<forall>p. files a' p = files b' p \<or> (files a' p = files a p \<and> files b' p = files b p))
     \<and> (\<exists>ls. stdout a' = stdout a @ ls \<and> stdout b' = stdout b @ ls)"

subsection \<open>The formulas of the specification\<close>





definition spec_corner_radius :: "int \<Rightarrow> int" where
  "spec_corner_radius roundedSize = round (of_int roundedSize * (2237 / 10000 :: rat))"

section \<open>Properties\<close>

subsection \<open>Auxiliary facts\<close>

lemma py_int_nonneg: "0 \<le> x \<Longrightarrow> py_int x = \<lfloor>x\<rfloor>"
  by (simp add: py_int_def)

lemma py_int_of_int [simp]: "py_int (of_int n) = n"
  by (simp add: py_int_def)

lemma py_int_nonneg_iff: "0 \<le> x \<Longrightarrow> 0 \<le> py_int x"
  by (simp add: py_int_def)




subsection \<open>C2: the geometry, the rasteriser request and the centring\<close>




subsection \<open>C5: the corner radius\<close>

text \<open>
  Claim C5 says that the mask and the shadow rectangle use the radius
  \<open>round(roundedSize * 0.2237)\<close>, rounded to the nearest integer, 115 for
  \<open>roundedSize = 512\<close>. Both places of the script compute
  \<^verbatim>\<open>int(size * 0.2237)\<close>, which truncates: \<open>512 * 0.2237 = 114.5344\<close> gives 114.
\<close>

theorem rounding_counterexample:
  "corner_radius 512 = 114 \<and> spec_corner_radius 512 = 115"
  by code_simp

text \<open>
  C5 as amended: for every \<open>roundedSize \<ge> 0\<close> the rounded-corner mask and the shadow
  rectangle are drawn with the radius \<open>floor(roundedSize * 0.2237)\<close>, the product
  truncated; for \<open>roundedSize = 512\<close> the radius is 114.
\<close>

theorem corner_radius_truncates:
  assumes "0 \<le> n"
  shows "corner_radius n = \<lfloor>of_int n * (2237 / 10000 :: rat)\<rfloor>
       \<and> create_rounded_rectangle_mask tk n =
           Inr (rounded_rectangle tk \<lparr>width = n, height = n, pixel = (\<lambda>x y. 0)\<rparr>
                  (0, 0, n, n) \<lfloor>of_int n * (2237 / 10000 :: rat)\<rfloor> 255)
       \<and> (0 \<le> sz \<and> rounded_icon_size sz st = n \<longrightarrow>
            shadow_layer tk sz st =
              Inr (let left = rounded_icon_offset sz st + py_int (of_int sz * shadow_offset_x st);
                       top = rounded_icon_offset sz st + py_int (of_int sz * shadow_offset_y st);
                       drawn = rounded_rectangle tk
                                 \<lparr>width = sz, height = sz, pixel = (\<lambda>x y. transparent)\<rparr>
                                 (left, top, left + n, top + n)
                                 \<lfloor>of_int n * (2237 / 10000 :: rat)\<rfloor>
                                 (0, 0, 0, clip8 (shadow_fill_alpha st))
                   in if py_int (of_int sz * shadow_blur st) > 0
                      then gaussian_blur tk (py_int (of_int sz * shadow_blur st)) drawn
                      else drawn))"
proof -
  have r: "corner_radius n = \<lfloor>of_int n * 2237 / (10000 :: rat)\<rfloor>"
    using assms by (simp add: corner_radius_def radius_ratio_def py_int_nonneg)
  have m: "create_rounded_rectangle_mask tk n =
           Inr (rounded_rectangle tk \<lparr>width = n, height = n, pixel = (\<lambda>x y. 0)\<rparr>
                  (0, 0, n, n) \<lfloor>of_int n * 2237 / (10000 :: rat)\<rfloor> 255)"
    using assms by (simp add: create_rounded_rectangle_mask_def image_new_def r)
  have s: "0 \<le> sz \<Longrightarrow> rounded_icon_size sz st = n \<Longrightarrow>
            shadow_layer tk sz st =
              Inr (let left = rounded_icon_offset sz st + py_int (of_int sz * shadow_offset_x st);
                       top = rounded_icon_offset sz st + py_int (of_int sz * shadow_offset_y st);
                       drawn = rounded_rectangle tk
                                 \<lparr>width = sz, height = sz, pixel = (\<lambda>x y. transparent)\<rparr>
                                 (left, top, left + n, top + n)
                                 \<lfloor>of_int n * 2237 / (10000 :: rat)\<rfloor>
                                 (0, 0, 0, clip8 (shadow_fill_alpha st))
                   in if py_int (of_int sz * shadow_blur st) > 0
                      then gaussian_blur tk (py_int (of_int sz * shadow_blur st)) drawn
                      else drawn)"
    by (simp add: shadow_layer_def image_new_def Let_def r)
  show ?thesis using r m s by simp
qed

theorem corner_radius_truncates_witness:
  "(0::int) \<le> 512 \<and> corner_radius 512 = 114"
proof -
  have e: "\<lfloor>of_int 512 * (2237 / 10000 :: rat)\<rfloor> = 114" by code_simp
  show ?thesis using corner_radius_truncates [of 512] e by simp
qed

subsection \<open>C8: the default shadow opacity\<close>

text \<open>
  Claim C8 says that a caller who does not give the shadow opacity gets 0.3 on every
  path to the shadow drawing. Through the command line this holds: the option's default
  is 0.3 and the fill alpha is \<open>int(255 * 0.3) = 76\<close>. A direct call of
  \<^verbatim>\<open>generate_icon\<close> that leaves \<^verbatim>\<open>shadow_opacity\<close> out gets the default of the
  signature, 0.9, and the fill alpha \<open>int(255 * 0.9) = 229\<close>.
\<close>

theorem default_opacity_mismatch:
  "generate_icon_call tk tool svg_path output_path sz bg (kw\<lparr>kw_shadow_opacity := None\<rparr>) w
     = generate_icon tk tool svg_path output_path sz
         (signature_defaults bg (kw\<lparr>kw_shadow_opacity := None\<rparr>)) w
   \<and> shadow_opacity (signature_defaults bg (kw\<lparr>kw_shadow_opacity := None\<rparr>)) = 9 / 10
   \<and> shadow_fill_alpha (signature_defaults bg (kw\<lparr>kw_shadow_opacity := None\<rparr>)) = 229
   \<and> shadow_opacity (style_of (parse_args (av\<lparr>opt_shadow_opacity := None\<rparr>)) bg') = 3 / 10
   \<and> shadow_fill_alpha (style_of (parse_args (av\<lparr>opt_shadow_opacity := None\<rparr>)) bg') = 76"
proof -
  have a: "py_int (459 / 2) = 229" by code_simp
  have b: "py_int (153 / 2) = 76" by code_simp
  show ?thesis
    by (simp add: generate_icon_call_def shadow_fill_alpha_def signature_defaults_def
        style_of_def parse_args_def or_default_def a b)
qed

subsection \<open>Facts about the imaging calls and the sample inputs\<close>

lemma py_int_numeral [simp]: "py_int (numeral n) = numeral n"
  by (simp add: py_int_def)

lemma image_new_size: "image_new w h c = Inr im \<Longrightarrow> width im = w \<and> height im = h"
  by (auto simp: image_new_def split: if_splits)

lemma paste_masked_size [simp]:
  "width (paste_masked d s b) = width d" "height (paste_masked d s b) = height d"
  by (simp_all add: paste_masked_def split: prod.splits)

lemma paste_size [simp]:
  "width (paste d s b) = width d" "height (paste d s b) = height d"
  by (simp_all add: paste_def split: prod.splits)

lemma putalpha_size [simp]:
  "width (putalpha im m) = width im" "height (putalpha im m) = height im"
  by (simp_all add: putalpha_def)

lemma background_size:
  "background sz st tmp = Inr im \<Longrightarrow>
     width im = rounded_icon_size sz st \<and> height im = rounded_icon_size sz st"
  by (auto simp: background_def Let_def split: sum.splits dest: image_new_size)

lemma round_corners_size:
  "round_corners tk rs icon0 = Inr im \<Longrightarrow> width im = rs \<and> height im = rs"
  by (auto simp: round_corners_def split: sum.splits dest: image_new_size)

lemma render_size:
  assumes "render tk sz st tmp = Inr l"
  shows "width (icon l) = sz \<and> height (icon l) = sz"
proof (cases "add_rounded_corners st")
  case False
  then have rs: "rounded_icon_size sz st = sz" by (simp add: rounded_icon_size_def)
  from assms False obtain im where "background sz st tmp = Inr im" "icon l = im"
    by (auto simp: render_def split: sum.splits)
  then show ?thesis using background_size [of sz st tmp im] rs by simp
next
  case True
  from assms True obtain icon0 rounded where
    b: "background sz st tmp = Inr icon0"
    and r: "round_corners tk (rounded_icon_size sz st) icon0 = Inr rounded"
    by (auto simp: render_def split: sum.splits)
  show ?thesis
  proof (cases "corner_padding_ratio st > 0 \<or> add_shadow st")
    case False
    then have rs: "rounded_icon_size sz st = sz" by (simp add: rounded_icon_size_def)
    from assms True False b r have "icon l = rounded"
      by (auto simp: render_def)
    then show ?thesis using round_corners_size [OF r] rs by simp
  next
    case c: True
    from assms True c b r obtain blank where
      n: "image_new sz sz transparent = Inr blank"
      by (auto simp: render_def split: sum.splits)
    from assms True c b r n have
      "(\<exists>sh. icon l = paste_masked (paste_masked blank sh (0, 0)) rounded
                (rounded_icon_offset sz st, rounded_icon_offset sz st))
       \<or> icon l = paste_masked blank rounded
                (rounded_icon_offset sz st, rounded_icon_offset sz st)"
      by (auto simp: render_def Let_def split: sum.splits if_splits)
    then show ?thesis using image_new_size [OF n] by auto
  qed
qed

lemma sample_style:
  "\<not> add_rounded_corners (cli_style True False)"
  "bg_color (cli_style True False) = (113, 202, 238)"
  by (simp_all add: cli_style_def style_of_def parse_args_def argv_defaults_def)

lemma sample_geometry:
  "scaled_content_size 16 (cli_style True False) = 11" "offset 16 (cli_style True False) = 2"
  "rounded_icon_size 16 (cli_style True False) = 16"
proof -
  have a: "py_int (56 / 5) = 11" by code_simp
  show r: "rounded_icon_size 16 (cli_style True False) = 16"
    by (simp add: rounded_icon_size_def sample_style)
  have p: "padding_ratio (cli_style True False) = 15 / 100" "scale_ratio (cli_style True False) = 1"
    by (simp_all add: cli_style_def style_of_def parse_args_def argv_defaults_def or_default_def)
  show s: "scaled_content_size 16 (cli_style True False) = 11"
    by (simp add: scaled_content_size_def content_size_def r p a)
  show "offset 16 (cli_style True False) = 2"
    by (simp add: offset_def s r)
qed

lemma sample_run:
  "fst (generate_icon sample_toolkit sample_rsvg [''icon.svg''] [''out'', ''icon_16.png''] 16
     (cli_style True False) sample_world) = Inr True"
  apply (simp add: generate_icon_def convert_svg_to_png_def sample_rsvg_def sample_world_def
      write_file_def render_def background_def image_new_def image_open_def flat_image_def
      cli_style_def style_of_def parse_args_def argv_defaults_def or_default_def
      rounded_icon_size_def save_def os_remove_def temp_svg_png_def Let_def)
  done

lemma sample_run_shadow:
  "fst (generate_icon sample_toolkit sample_rsvg [''icon.svg''] [''out'', ''icon_16.png''] 16
     (cli_style False True) sample_world) = Inr True"
  by (simp add: generate_icon_def convert_svg_to_png_def sample_rsvg_def sample_world_def
      write_file_def render_def background_def round_corners_def shadow_layer_def
      create_rounded_rectangle_mask_def image_new_def image_open_def flat_image_def
      cli_style_def style_of_def parse_args_def argv_defaults_def or_default_def
      rounded_icon_size_def save_def os_remove_def temp_svg_png_def Let_def)

subsection \<open>C1: the saved image has the requested size\<close>

text \<open>
  Claim C1: for every size \<open>S\<close> (those of the size table among them) and every style,
  rounded corners on or off, corner padding zero or positive, shadow on or off, the image
  that \<^verbatim>\<open>generate_icon\<close> saves is exactly \<open>S \<times> S\<close>, whatever the sizes of the
  intermediate canvases. The saved file is read back from the world the call leaves
  (the output path is not the transient file, which the call removes).
\<close>

theorem saved_image_has_requested_size:
  assumes "generate_icon tk tool svg_path output_path sz st w = (Inr True, w')"
    and "output_path \<noteq> temp_svg_png sz"
  shows "\<exists>im. files w' output_path = Some (Png im) \<and> width im = sz \<and> height im = sz"
proof -
  from assms(1) obtain w1 l w2 where
    r: "render tk sz st (files w1 (temp_svg_png sz)) = Inr l"
    and s: "save w1 output_path (icon l) = Inr w2"
    and d: "os_remove w2 (temp_svg_png sz) = Inr w'"
    by (auto simp: generate_icon_def split: prod.splits bool.splits sum.splits)
  from s have "files w2 output_path = Some (Png (icon l))"
    by (auto simp: save_def write_file_def split: if_splits)
  with d assms(2) have "files w' output_path = Some (Png (icon l))"
    by (auto simp: os_remove_def split: if_splits)
  then show ?thesis using render_size [OF r] by simp
qed

theorem saved_image_has_requested_size_witness:
  "\<exists>im. files (snd (generate_icon sample_toolkit sample_rsvg [''icon.svg'']
                      [''out'', ''icon_16.png''] 16 (cli_style False True) sample_world))
            [''out'', ''icon_16.png''] = Some (Png im)
        \<and> width im = 16 \<and> height im = 16"
proof -
  let ?r = "generate_icon sample_toolkit sample_rsvg [''icon.svg'']
              [''out'', ''icon_16.png''] 16 (cli_style False True) sample_world"
  have e: "?r = (Inr True, snd ?r)" using sample_run_shadow by (simp add: prod_eq_iff)
  have ne: "[''out'', ''icon_16.png''] \<noteq> temp_svg_png 16" by (simp add: temp_svg_png_def)
  from saved_image_has_requested_size [OF e ne] show ?thesis .
qed

subsection \<open>C3: when the final composite is made\<close>

text \<open>
  Claim C3 says that the transparent \<open>size \<times> size\<close> canvas with the shadow and the
  re-centred icon is made exactly when the corner padding is positive or the shadow is
  enabled, also when rounded corners are disabled and the shadow is enabled. In the
  script the whole step is nested in \<^verbatim>\<open>if add_rounded_corners:\<close> (line 138): with
  \<^verbatim>\<open>--no-rounded-corners --shadow\<close> no canvas and no shadow layer are made.
\<close>

theorem shadow_without_rounding_counterexample:
  "(case render sample_toolkit 16 (cli_style True True)
          (Some (Png (flat_image 11 (0, 0, 0, 128)))) of
      Inl e \<Rightarrow> False
    | Inr l \<Rightarrow> final_output l = None \<and> shadow l = None)"
  by (simp add: render_def background_def image_new_def image_open_def flat_image_def
      cli_style_def style_of_def parse_args_def argv_defaults_def or_default_def
      rounded_icon_size_def Let_def)

text \<open>
  C3 as amended: the composite is made exactly when rounded corners are enabled and
  the corner padding is positive or the shadow is enabled. In every such case a fully
  transparent \<open>size \<times> size\<close> canvas is allocated, the shadow layer, made exactly when
  the shadow is enabled, is pasted first at \<open>(0, 0)\<close>, the rounded icon of step 4 is
  pasted at \<open>(roundedOffset, roundedOffset)\<close>, and the result is the image saved. With
  rounded corners disabled the image saved is the background composite of step 3.
\<close>

theorem final_composite_condition:
  assumes "render tk sz st tmp = Inr l"
  shows "(final_output l \<noteq> None \<longleftrightarrow>
            add_rounded_corners st \<and> (corner_padding_ratio st > 0 \<or> add_shadow st))
       \<and> (shadow l \<noteq> None \<longleftrightarrow> add_rounded_corners st \<and> add_shadow st)
       \<and> (\<forall>sh. shadow l = Some sh \<longrightarrow> shadow_layer tk sz st = Inr sh)
       \<and> (add_rounded_corners st \<and> (corner_padding_ratio st > 0 \<or> add_shadow st) \<longrightarrow>
            (\<exists>rounded. rounded_output l = Some rounded
               \<and> final_output l =
                   Some (paste_masked
                           (case shadow l of
                              None \<Rightarrow> \<lparr>width = sz, height = sz, pixel = (\<lambda>x y. transparent)\<rparr>
                            | Some sh \<Rightarrow>
                                paste_masked
                                  \<lparr>width = sz, height = sz, pixel = (\<lambda>x y. transparent)\<rparr>
                                  sh (0, 0))
                           rounded (rounded_icon_offset sz st, rounded_icon_offset sz st))
               \<and> final_output l = Some (icon l)))
       \<and> (\<not> add_rounded_corners st \<longrightarrow> background sz st tmp = Inr (icon l))"
proof (cases "add_rounded_corners st")
  case False
  with assms show ?thesis
    by (auto simp: render_def split: sum.splits)
next
  case True
  from assms True obtain icon0 rounded where
    b: "background sz st tmp = Inr icon0"
    and r: "round_corners tk (rounded_icon_size sz st) icon0 = Inr rounded"
    by (auto simp: render_def split: sum.splits)
  show ?thesis
  proof (cases "corner_padding_ratio st > 0 \<or> add_shadow st")
    case False
    with assms True b r show ?thesis by (auto simp: render_def)
  next
    case c: True
    from assms True c b r have n: "image_new sz sz transparent =
        Inr \<lparr>width = sz, height = sz, pixel = (\<lambda>x y. transparent)\<rparr>"
      by (auto simp: render_def image_new_def split: sum.splits if_splits)
    show ?thesis
    proof (cases "add_shadow st")
      case False
      with assms True c b r n show ?thesis by (auto simp: render_def Let_def)
    next
      case s: True
      from assms True c b r n s obtain sh where "shadow_layer tk sz st = Inr sh"
        by (auto simp: render_def split: sum.splits)
      with assms True c b r n s show ?thesis by (auto simp: render_def Let_def)
    qed
  qed
qed

theorem final_composite_condition_witness:
  "\<exists>l. render sample_toolkit 16 (cli_style False True)
          (Some (Png (flat_image 11 (0, 0, 0, 128)))) = Inr l
      \<and> final_output l \<noteq> None \<and> shadow l \<noteq> None"
proof -
  have "\<exists>l. render sample_toolkit 16 (cli_style False True)
          (Some (Png (flat_image 11 (0, 0, 0, 128)))) = Inr l"
    by (simp add: render_def background_def round_corners_def shadow_layer_def
      create_rounded_rectangle_mask_def image_new_def image_open_def flat_image_def
      cli_style_def style_of_def parse_args_def argv_defaults_def or_default_def
      rounded_icon_size_def Let_def)
  then obtain l where r: "render sample_toolkit 16 (cli_style False True)
          (Some (Png (flat_image 11 (0, 0, 0, 128)))) = Inr l" by blast
  have st: "add_rounded_corners (cli_style False True)" "add_shadow (cli_style False True)"
    by (simp_all add: cli_style_def style_of_def parse_args_def argv_defaults_def)
  from final_composite_condition [OF r] st have "final_output l \<noteq> None \<and> shadow l \<noteq> None"
    by simp
  with r show ?thesis by blast
qed

subsection \<open>C10: opacity without rounded corners\<close>

text \<open>
  Claim C10 says that with rounded corners disabled every pixel of the saved image has
  alpha 255, since the background is opaque and pasting the content with its own alpha
  as the mask never lowers the alpha of the canvas. \<^verbatim>\<open>Image.paste\<close> with an RGBA mask
  blends all four bands, the alpha band too: where the content has alpha 128, the canvas
  alpha becomes \<open>(255 * 127 + 128 * 128) / 255 = 191\<close>. On the rounded path
  \<^verbatim>\<open>putalpha\<close> overwrites the alpha band afterwards; on this path the image is saved as
  it is. The sample run for the size 16 pastes an 11 pixel content at offset 2.
\<close>

theorem unrounded_icon_not_opaque:
  "(case files (snd (generate_icon sample_toolkit sample_rsvg [''icon.svg'']
                       [''out'', ''icon_16.png''] 16 (cli_style True False) sample_world))
           [''out'', ''icon_16.png''] of
      Some (Png im) \<Rightarrow> alpha (pixel im 2 2) = 191
    | _ \<Rightarrow> False)"
  by (simp add: generate_icon_def convert_svg_to_png_def sample_rsvg_def sample_world_def
      write_file_def render_def background_def image_new_def image_open_def flat_image_def
      sample_geometry sample_style save_def os_remove_def temp_svg_png_def Let_def
      paste_masked_def inside_def blend_pixel_def alpha_def blend8_def div255_def
      opaque_color_def)

subsection \<open>Facts about two runs and about the loop\<close>

lemma attempts_append [simp]: "attempts (xs @ ys) = attempts xs @ attempts ys"
  by (induction xs rule: attempts.induct) simp_all

lemma same_effect_refl [simp]: "same_effect a a b b"
  by (simp add: same_effect_def)

lemma same_effect_trans:
  assumes "same_effect a a' b b'" and "same_effect a' a'' b' b''"
  shows "same_effect a a'' b b''"
proof -
  from assms obtain ls ms where
    "stdout a' = stdout a @ ls" "stdout b' = stdout b @ ls"
    "stdout a'' = stdout a' @ ms" "stdout b'' = stdout b' @ ms"
    by (auto simp: same_effect_def)
  then have "stdout a'' = stdout a @ (ls @ ms) \<and> stdout b'' = stdout b @ (ls @ ms)" by simp
  then have o: "\<exists>ks. stdout a'' = stdout a @ ks \<and> stdout b'' = stdout b @ ks" by blast
  have f: "\<forall>p. files a'' p = files b'' p \<or> (files a'' p = files a p \<and> files b'' p = files b p)"
    using assms unfolding same_effect_def by metis
  show ?thesis using assms o f by (simp add: same_effect_def)
qed

lemma same_effect_print:
  "same_effect a a' b b' \<Longrightarrow> same_effect a (print a' ls) b (print b' ls)"
  by (auto simp: same_effect_def print_def)

lemma same_effect_print0:
  "same_effect (print a ls) a' (print b ls) b' \<Longrightarrow> same_effect a a' b b'"
  by (auto simp: same_effect_def print_def)

lemma same_effect_write:
  "same_effect a a' b b' \<Longrightarrow> same_effect a (write_file a' p d) b (write_file b' p d)"
  by (auto simp: same_effect_def write_file_def)

lemma convert_two_worlds:
  assumes "files a svg_path = files b svg_path"
  shows "fst (convert_svg_to_png tool svg_path out n a) =
           fst (convert_svg_to_png tool svg_path out n b)
       \<and> same_effect a (snd (convert_svg_to_png tool svg_path out n a))
                      b (snd (convert_svg_to_png tool svg_path out n b))
       \<and> (fst (convert_svg_to_png tool svg_path out n a) \<longrightarrow>
            (\<exists>im. files (snd (convert_svg_to_png tool svg_path out n a)) out = Some (Png im)
                \<and> files (snd (convert_svg_to_png tool svg_path out n b)) out = Some (Png im)))"
proof (cases tool)
  case None
  then show ?thesis by (simp add: convert_svg_to_png_def same_effect_print)
next
  case (Some run)
  show ?thesis
  proof (cases "run (files b svg_path) n")
    case (RsvgOk im)
    with Some assms show ?thesis
      by (simp add: convert_svg_to_png_def same_effect_write) (simp add: write_file_def)
  next
    case (RsvgFail err wrote)
    with Some assms show ?thesis
      by (cases wrote) (simp_all add: convert_svg_to_png_def same_effect_write same_effect_print)
  qed
qed

lemma generate_icon_two_worlds:
  assumes "dirs a = dirs b" and "files a svg_path = files b svg_path"
  shows "fst (generate_icon tk tool svg_path output_path sz st a) =
           fst (generate_icon tk tool svg_path output_path sz st b)
       \<and> same_effect a (snd (generate_icon tk tool svg_path output_path sz st a))
                      b (snd (generate_icon tk tool svg_path output_path sz st b))"
proof -
  let ?ca = "convert_svg_to_png tool svg_path (temp_svg_png sz) (scaled_content_size sz st) a"
  let ?cb = "convert_svg_to_png tool svg_path (temp_svg_png sz) (scaled_content_size sz st) b"
  note c = convert_two_worlds [OF assms(2), of tool "temp_svg_png sz" "scaled_content_size sz st"]
  obtain ra a1 where ca: "?ca = (ra, a1)" by (cases ?ca)
  obtain rb b1 where cb: "?cb = (rb, b1)" by (cases ?cb)
  from c ca cb have r: "rb = ra" and e: "same_effect a a1 b b1" by simp_all
  show ?thesis
  proof (cases ra)
    case False
    with ca cb r e show ?thesis by (simp add: generate_icon_def)
  next
    case True
    with c ca cb obtain im where
      fa: "files a1 (temp_svg_png sz) = Some (Png im)"
      and fb: "files b1 (temp_svg_png sz) = Some (Png im)" by auto
    have d: "dirs a1 = dirs b1" using e assms(1) by (simp add: same_effect_def)
    show ?thesis
    proof (cases "render tk sz st (Some (Png im))")
      case (Inl x)
      with ca cb r True fa fb e show ?thesis by (simp add: generate_icon_def)
    next
      case (Inr l)
      show ?thesis
      proof (cases "output_path \<noteq> [] \<and> (butlast output_path = [] \<or> butlast output_path \<in> dirs a1)
                     \<and> output_path \<notin> dirs a1")
        case False
        with ca cb r True fa fb e d Inr show ?thesis
          by (auto simp: generate_icon_def save_def)
      next
        case s: True
        let ?a2 = "write_file a1 output_path (Png (icon l))"
        let ?b2 = "write_file b1 output_path (Png (icon l))"
        have e2: "same_effect a ?a2 b ?b2" by (rule same_effect_write [OF e])
        have ta: "temp_svg_png sz \<in> dom (files ?a2)" using fa by (auto simp: write_file_def)
        have tb: "temp_svg_png sz \<in> dom (files ?b2)" using fb by (auto simp: write_file_def)
        have e3: "same_effect a (?a2\<lparr>files := (files ?a2)(temp_svg_png sz := None)\<rparr>)
                              b (?b2\<lparr>files := (files ?b2)(temp_svg_png sz := None)\<rparr>)"
          using e2 by (auto simp: same_effect_def)
        from ca cb r True fa fb d Inr s ta tb e3 show ?thesis
          by (simp add: generate_icon_def save_def os_remove_def)
      qed
    qed
  qed
qed

lemma same_effect_agree:
  "same_effect a a' b b' \<Longrightarrow> files a p = files b p \<Longrightarrow> files a' p = files b' p"
  unfolding same_effect_def by metis

lemma same_effect_dirs:
  "same_effect a a' b b' \<Longrightarrow> dirs a = dirs b \<Longrightarrow> dirs a' = dirs b'"
  by (simp add: same_effect_def)

lemma generate_all_two_worlds:
  assumes "dirs a = dirs b" and "files a svg_path = files b svg_path"
  shows "fst (generate_all tk tool svg_path out st xs k a) =
           fst (generate_all tk tool svg_path out st xs k b)
       \<and> same_effect a (snd (generate_all tk tool svg_path out st xs k a))
                      b (snd (generate_all tk tool svg_path out st xs k b))"
  using assms
proof (induction xs arbitrary: k a b)
  case Nil
  then show ?case by simp
next
  case (Cons x xs)
  obtain sz f where x: "x = (sz, f)" by (cases x)
  let ?a0 = "print a [Generating sz f]" and ?b0 = "print b [Generating sz f]"
  let ?ga = "generate_icon tk tool svg_path (out @ [f]) sz st ?a0"
  let ?gb = "generate_icon tk tool svg_path (out @ [f]) sz st ?b0"
  have d0: "dirs ?a0 = dirs ?b0" and f0: "files ?a0 svg_path = files ?b0 svg_path"
    using Cons.prems by (simp_all add: print_def)
  note g = generate_icon_two_worlds [OF d0 f0, of tk tool "out @ [f]" sz st]
  obtain ra a1 where ga: "?ga = (ra, a1)" by (cases ?ga)
  obtain rb b1 where gb: "?gb = (rb, b1)" by (cases ?gb)
  from g ga gb have r: "rb = ra" and e0: "same_effect ?a0 a1 ?b0 b1" by simp_all
  have e: "same_effect a a1 b b1" by (rule same_effect_print0 [OF e0])
  show ?case
  proof (cases ra)
    case (Inl ex)
    with x ga gb r e show ?thesis by simp
  next
    case (Inr ok)
    let ?a2 = "print a1 [Mark ok]" and ?b2 = "print b1 [Mark ok]"
    let ?k' = "if ok then k + 1 else k"
    have e2: "same_effect a ?a2 b ?b2" by (rule same_effect_print [OF e])
    have d2: "dirs ?a2 = dirs ?b2" using same_effect_dirs [OF e2 Cons.prems(1)] .
    have f2: "files ?a2 svg_path = files ?b2 svg_path"
      using same_effect_agree [OF e2 Cons.prems(2)] .
    note ih = Cons.IH [OF d2 f2, of ?k']
    have ua: "generate_all tk tool svg_path out st (x # xs) k a =
                generate_all tk tool svg_path out st xs ?k' ?a2"
      using x ga Inr by (cases ok) simp_all
    have ub: "generate_all tk tool svg_path out st (x # xs) k b =
                generate_all tk tool svg_path out st xs ?k' ?b2"
      using x gb r Inr by (cases ok) simp_all
    show ?thesis unfolding ua ub using ih same_effect_trans [OF e2] by blast
  qed
qed

lemma generate_icon_frame:
  "dirs (snd (generate_icon tk tool svg_path output_path sz st w)) = dirs w
   \<and> (p \<noteq> temp_svg_png sz \<longrightarrow> p \<noteq> output_path \<longrightarrow>
        files (snd (generate_icon tk tool svg_path output_path sz st w)) p = files w p)
   \<and> (\<exists>ls. stdout (snd (generate_icon tk tool svg_path output_path sz st w)) = stdout w @ ls
          \<and> attempts ls = [])"
  by (auto simp: generate_icon_def convert_svg_to_png_def save_def os_remove_def write_file_def
      print_def split: option.splits rsvg_outcome.splits sum.splits if_splits)

lemma generate_all_frame:
  "dirs (snd (generate_all tk tool svg_path out st xs k w)) = dirs w
   \<and> ((\<forall>(sz, f) \<in> set xs. p \<noteq> temp_svg_png sz \<and> p \<noteq> out @ [f]) \<longrightarrow>
        files (snd (generate_all tk tool svg_path out st xs k w)) p = files w p)"
proof (induction xs arbitrary: k w)
  case Nil
  then show ?case by simp
next
  case (Cons x xs)
  obtain sz f where x: "x = (sz, f)" by (cases x)
  let ?w0 = "print w [Generating sz f]"
  let ?g = "generate_icon tk tool svg_path (out @ [f]) sz st ?w0"
  obtain r w1 where g: "?g = (r, w1)" by (cases ?g)
  from generate_icon_frame [of tk tool svg_path "out @ [f]" sz st ?w0 p] g
  have d: "dirs w1 = dirs w"
    and fr: "p \<noteq> temp_svg_png sz \<Longrightarrow> p \<noteq> out @ [f] \<Longrightarrow> files w1 p = files w p"
    by (simp_all add: print_def)
  show ?case
  proof (cases r)
    case (Inl ex)
    with x g d fr show ?thesis by auto
  next
    case (Inr ok)
    let ?k' = "if ok then k + 1 else k"
    have u: "generate_all tk tool svg_path out st (x # xs) k w =
               generate_all tk tool svg_path out st xs ?k' (print w1 [Mark ok])"
      using x g Inr by (cases ok) simp_all
    from Cons.IH [of ?k' "print w1 [Mark ok]"] d fr x show ?thesis
      unfolding u by (auto simp: print_def)
  qed
qed

subsection \<open>C7: a missing source file\<close>

text \<open>
  Claim C7: when the vector source does not exist, the run aborts before any
  generation: the exit status is not zero (it is 1), the only effect is the error line
  printed, no file is written and the output directory is not created.
\<close>

theorem missing_source_aborts:
  assumes "\<not> path_exists w (svg_file av)"
  shows "main tk tool av w = (1, w\<lparr>stdout := stdout w @ [SvgMissing (svg_file av)]\<rparr>)
       \<and> fst (main tk tool av w) \<noteq> 0
       \<and> files (snd (main tk tool av w)) = files w
       \<and> dirs (snd (main tk tool av w)) = dirs w"
  using assms by (simp add: main_def parse_args_def print_def Let_def)

theorem missing_source_aborts_witness:
  "fst (main sample_toolkit sample_rsvg (argv_defaults [''missing.svg'']) sample_world) = 1
   \<and> files (snd (main sample_toolkit sample_rsvg (argv_defaults [''missing.svg'']) sample_world))
       = files sample_world
   \<and> dirs (snd (main sample_toolkit sample_rsvg (argv_defaults [''missing.svg'']) sample_world))
       = dirs sample_world"
proof -
  have h: "\<not> path_exists sample_world (svg_file (argv_defaults [''missing.svg'']))"
    by (simp add: path_exists_def sample_world_def argv_defaults_def)
  from missing_source_aborts [OF h] show ?thesis by simp
qed

subsection \<open>Facts about \<^verbatim>\<open>main\<close>\<close>

lemma ancestors_length:
  "q \<in> set (ancestors_and_self p) \<Longrightarrow> q \<noteq> [] \<and> length q \<le> length p"
  by (induction p arbitrary: q) auto


lemma mkdir_parents_again:
  assumes "mkdir_parents w p = Inr w1" and "files w' = files w" and "dirs w' = dirs w1"
  shows "\<exists>w2. mkdir_parents w' p = Inr w2 \<and> files w2 = files w' \<and> dirs w2 = dirs w1"
  using assms by (auto simp: mkdir_parents_def split: if_splits)

lemma main_generating:
  assumes "path_exists w (arg_svg_file (parse_args av))"
    and "mkdir_parents w (arg_output_dir (parse_args av)) = Inr w1"
    and "hex_to_rgb (arg_color (parse_args av)) = Inr bg"
    and "generate_all tk tool (arg_svg_file (parse_args av)) (arg_output_dir (parse_args av))
           (style_of (parse_args av) bg) ICON_SIZES 0
           (print w1 (banner (parse_args av) bg)) = (r, w2)"
  shows "fst (main tk tool av w) = (case r of Inl e \<Rightarrow> 1 | Inr n \<Rightarrow> 0)"
    and "files (snd (main tk tool av w)) = files w2"
    and "dirs (snd (main tk tool av w)) = dirs w2"
  using assms by (auto simp: main_def Let_def print_def split: sum.splits)






lemma print_print [simp]: "print (print w xs) ys = print w (xs @ ys)"
  by (simp add: print_def)



lemma sample_prelude:
  "path_exists sample_world (svg_file (argv_defaults [''icon.svg'']))"
  "\<forall>q \<in> set (ancestors_and_self (arg_output_dir (parse_args (argv_defaults [''icon.svg''])))).
     q \<notin> dom (files sample_world)"
  "hex_to_rgb (arg_color (parse_args (argv_defaults [''icon.svg'']))) = Inr (113, 202, 238)"
  "\<not> arg_no_rounded_corners (parse_args (argv_defaults [''icon.svg'']))
     \<longrightarrow> arg_corner_padding (parse_args (argv_defaults [''icon.svg''])) \<le> 1 / 2"
  "\<forall>(sz, f) \<in> set ICON_SIZES.
     arg_output_dir (parse_args (argv_defaults [''icon.svg''])) @ [f] \<notin> dirs sample_world"
  by (auto simp: path_exists_def sample_world_def argv_defaults_def parse_args_def
      or_default_def hex_to_rgb_def int16_def py_strip_def py_isspace_def hex_digit_def)

subsection \<open>C4: the exit status\<close>




subsection \<open>C6: the transient raster file\<close>

text \<open>
  Claim C6 says that the transient file \<^verbatim>\<open>/tmp/temp_icon_<size>.png\<close> is removed on
  every path of \<^verbatim>\<open>generate_icon\<close>. The only \<^verbatim>\<open>os.remove\<close> is the last statement
  before \<^verbatim>\<open>return True\<close> (line 192). Three runs leave the file behind: saving into a
  directory that does not exist raises after the rasteriser wrote the file; a
  rasteriser that fails after it wrote a file makes the function return \<^verbatim>\<open>False\<close> at
  line 123; and through \<^verbatim>\<open>main\<close>, an output path that is a directory makes
  \<^verbatim>\<open>icon.save\<close> raise for the first size.
\<close>

theorem temp_file_left_behind:
  "temp_svg_png 16 \<notin> dom (files sample_world)
   \<and> fst (generate_icon sample_toolkit sample_rsvg [''icon.svg''] [''missing'', ''icon_16.png'']
            16 (cli_style False False) sample_world) = Inl OSError
   \<and> temp_svg_png 16
       \<in> dom (files (snd (generate_icon sample_toolkit sample_rsvg [''icon.svg'']
                             [''missing'', ''icon_16.png''] 16 (cli_style False False)
                             sample_world)))
   \<and> fst (generate_icon sample_toolkit failing_rsvg [''icon.svg''] [''out'', ''icon_16.png'']
            16 (cli_style False False) sample_world) = Inr False
   \<and> temp_svg_png 16
       \<in> dom (files (snd (generate_icon sample_toolkit failing_rsvg [''icon.svg'']
                             [''out'', ''icon_16.png''] 16 (cli_style False False)
                             sample_world)))
   \<and> fst (main sample_toolkit sample_rsvg (argv_defaults [''icon.svg'']) blocked_world) = 1
   \<and> temp_svg_png 40
       \<in> dom (files (snd (main sample_toolkit sample_rsvg (argv_defaults [''icon.svg''])
                             blocked_world)))"
proof -
  have a: "temp_svg_png 16 \<notin> dom (files sample_world)"
    by (simp add: temp_svg_png_def sample_world_def)
  have r: "rounded_icon_size sz (cli_style False False) = sz" for sz
    by (simp add: rounded_icon_size_def cli_style_def style_of_def parse_args_def
        argv_defaults_def or_default_def)
  have st: "add_rounded_corners (cli_style False False)"
    "\<not> add_shadow (cli_style False False)" "\<not> corner_padding_ratio (cli_style False False) > 0"
    by (simp_all add: cli_style_def style_of_def parse_args_def argv_defaults_def or_default_def)
  have b: "fst (generate_icon sample_toolkit sample_rsvg [''icon.svg'']
              [''missing'', ''icon_16.png''] 16 (cli_style False False) sample_world)
             = Inl OSError
         \<and> temp_svg_png 16
             \<in> dom (files (snd (generate_icon sample_toolkit sample_rsvg [''icon.svg'']
                             [''missing'', ''icon_16.png''] 16 (cli_style False False)
                             sample_world)))"
    by (simp add: generate_icon_def convert_svg_to_png_def sample_rsvg_def sample_world_def
        write_file_def render_def background_def round_corners_def
        create_rounded_rectangle_mask_def image_new_def image_open_def flat_image_def
        r st save_def Let_def)
  have c: "fst (generate_icon sample_toolkit failing_rsvg [''icon.svg'']
              [''out'', ''icon_16.png''] 16 (cli_style False False) sample_world) = Inr False
         \<and> temp_svg_png 16
             \<in> dom (files (snd (generate_icon sample_toolkit failing_rsvg [''icon.svg'']
                             [''out'', ''icon_16.png''] 16 (cli_style False False)
                             sample_world)))"
    by (simp add: generate_icon_def convert_svg_to_png_def failing_rsvg_def sample_world_def
        write_file_def print_def)
  have s: "style_of (parse_args (argv_defaults [''icon.svg''])) (113, 202, 238)
             = cli_style False False"
    by (simp add: cli_style_def argv_defaults_def)
  have g: "generate_icon sample_toolkit sample_rsvg [''icon.svg'']
             [''generated-icons'', ''icon_40.png''] 40 (cli_style False False) w
           = (Inl OSError, write_file (print w []) (temp_svg_png 40)
                             (Png (flat_image (scaled_content_size 40 (cli_style False False))
                                    (0, 0, 0, 128))))"
    if "files w [''icon.svg''] = Some (Bytes ''<svg/>'')"
      and "[''generated-icons'', ''icon_40.png''] \<in> dirs w" for w
    using that
    by (simp add: generate_icon_def convert_svg_to_png_def sample_rsvg_def
        write_file_def render_def background_def round_corners_def
        create_rounded_rectangle_mask_def image_new_def image_open_def flat_image_def
        r st save_def Let_def print_def)
  let ?av = "argv_defaults [''icon.svg'']"
  let ?w1 = "blocked_world\<lparr>dirs := insert [''generated-icons''] (dirs blocked_world)\<rparr>"
  let ?w2 = "print ?w1 (banner (parse_args ?av) (113, 202, 238))"
  let ?w3 = "write_file (print (print ?w2 [Generating 40 ''icon_40.png'']) []) (temp_svg_png 40)
               (Png (flat_image (scaled_content_size 40 (cli_style False False))
                      (0, 0, 0, 128)))"
  have av: "arg_svg_file (parse_args ?av) = [''icon.svg'']"
    "arg_output_dir (parse_args ?av) = [''generated-icons'']"
    by (simp_all add: parse_args_def argv_defaults_def or_default_def)
  have pe: "path_exists blocked_world [''icon.svg'']"
    by (simp add: path_exists_def blocked_world_def sample_world_def)
  have mk: "mkdir_parents blocked_world [''generated-icons''] = Inr ?w1"
    by (simp add: mkdir_parents_def blocked_world_def sample_world_def)
  have gi: "generate_icon sample_toolkit sample_rsvg [''icon.svg'']
              [''generated-icons'', ''icon_40.png''] 40 (cli_style False False)
              (print ?w2 [Generating 40 ''icon_40.png'']) = (Inl OSError, ?w3)"
    by (rule g) (simp_all add: print_def blocked_world_def sample_world_def)
  have ga: "generate_all sample_toolkit sample_rsvg [''icon.svg''] [''generated-icons'']
              (cli_style False False) ICON_SIZES 0 ?w2 = (Inl OSError, ?w3)"
    unfolding ICON_SIZES_def by (simp add: gi del: print_print)
  have m: "main sample_toolkit sample_rsvg ?av blocked_world = (1, ?w3)"
    unfolding main_def Let_def av by (simp add: pe mk sample_prelude(3) s ga del: print_print)
  have d: "fst (main sample_toolkit sample_rsvg (argv_defaults [''icon.svg'']) blocked_world) = 1
         \<and> temp_svg_png 40
             \<in> dom (files (snd (main sample_toolkit sample_rsvg (argv_defaults [''icon.svg''])
                             blocked_world)))"
    unfolding m by (simp add: write_file_def)
  show ?thesis using a b c d by blast
qed

subsection \<open>C9: a second run changes nothing\<close>

text \<open>
  Claim C9: running the program twice with the same inputs gives the same output
  files. The second run starts in the world the first run left (the output directory
  now holds the files of the first run, which are overwritten); it ends with the same
  exit status and the same content of every file, provided the source file is none of
  the files the run writes and no transient file is the output directory or one of its
  ancestors. The rasteriser is a function of the source's content and the size, and a
  file is its decoded pixels: that the two external tools are deterministic is part of
  the model.
\<close>

theorem rerun_is_idempotent:
  assumes "\<forall>(sz, f) \<in> set ICON_SIZES.
             svg_file av \<noteq> temp_svg_png sz
             \<and> svg_file av \<noteq> arg_output_dir (parse_args av) @ [f]
             \<and> temp_svg_png sz \<notin> set (ancestors_and_self (arg_output_dir (parse_args av)))"
  shows "fst (main tk tool av (snd (main tk tool av w))) = fst (main tk tool av w)
       \<and> files (snd (main tk tool av (snd (main tk tool av w)))) = files (snd (main tk tool av w))
       \<and> dirs (snd (main tk tool av (snd (main tk tool av w)))) = dirs (snd (main tk tool av w))"
proof -
  let ?args = "parse_args av"
  let ?svg = "arg_svg_file ?args" and ?out = "arg_output_dir ?args"
  have svg: "?svg = svg_file av" by (simp add: parse_args_def)
  let ?W = "snd (main tk tool av w)"
  show ?thesis
  proof (cases "path_exists w ?svg")
    case False
    then have 1: "main tk tool av w = (1, print w [SvgMissing ?svg])"
      by (simp add: main_def Let_def)
    have "\<not> path_exists (print w [SvgMissing ?svg]) ?svg"
      using False by (simp add: path_exists_def print_def)
    then have "main tk tool av (print w [SvgMissing ?svg]) =
                 (1, print (print w [SvgMissing ?svg]) [SvgMissing ?svg])"
      by (simp add: main_def Let_def)
    with 1 show ?thesis by (simp add: print_def)
  next
    case ex: True
    show ?thesis
    proof (cases "mkdir_parents w ?out")
      case (Inl e)
      with ex have "main tk tool av w = (1, w)" by (simp add: main_def Let_def)
      then show ?thesis by simp
    next
      case (Inr w1)
      then have w1: "files w1 = files w" "dirs w1 = dirs w \<union> set (ancestors_and_self ?out)"
        and ok: "\<forall>q \<in> set (ancestors_and_self ?out). q \<notin> dom (files w)"
        by (auto simp: mkdir_parents_def split: if_splits)
      show ?thesis
      proof (cases "hex_to_rgb (arg_color ?args)")
        case (Inl e)
        with ex Inr have 1: "main tk tool av w = (1, w1)" by (simp add: main_def Let_def)
        have e1: "path_exists w1 ?svg" using ex w1 by (auto simp: path_exists_def)
        from mkdir_parents_again [OF Inr w1(1) refl] obtain w2 where
          "mkdir_parents w1 ?out = Inr w2" "files w2 = files w1" "dirs w2 = dirs w1" by blast
        with e1 Inl have "main tk tool av w1 = (1, w2)" by (simp add: main_def Let_def)
        with 1 \<open>files w2 = files w1\<close> \<open>dirs w2 = dirs w1\<close> show ?thesis by simp
      next
        case bg: (Inr bg)
        let ?st = "style_of ?args bg"
        let ?A0 = "print w1 (banner ?args bg)"
        let ?ga = "generate_all tk tool ?svg ?out ?st ICON_SIZES 0 ?A0"
        obtain r a_end where ga: "?ga = (r, a_end)" by (cases ?ga)
        note m1 = main_generating [OF ex Inr bg ga]
        have fr_svg: "\<forall>(sz, f) \<in> set ICON_SIZES. ?svg \<noteq> temp_svg_png sz \<and> ?svg \<noteq> ?out @ [f]"
          using assms svg by auto
        have d_end: "dirs a_end = dirs w1"
          using generate_all_frame [of tk tool ?svg ?out ?st ICON_SIZES 0 ?A0] ga
          by (simp add: print_def)
        have f_svg: "files a_end ?svg = files w ?svg"
          using generate_all_frame [of tk tool ?svg ?out ?st ICON_SIZES 0 ?A0 ?svg] ga fr_svg w1
          by (simp add: print_def)
        have f_pre: "files a_end q = files w q" if q: "q \<in> set (ancestors_and_self ?out)" for q
        proof -
          have "\<forall>(sz, f) \<in> set ICON_SIZES. q \<noteq> temp_svg_png sz \<and> q \<noteq> ?out @ [f]"
            using assms q ancestors_length [OF q] by auto
          then show ?thesis
            using generate_all_frame [of tk tool ?svg ?out ?st ICON_SIZES 0 ?A0 q] ga w1
            by (simp add: print_def)
        qed
        have exW: "path_exists ?W ?svg"
          using ex m1(2,3) f_svg d_end w1 by (auto simp: path_exists_def)
        have "\<forall>q \<in> set (ancestors_and_self ?out). q \<notin> dom (files ?W)"
          using ok f_pre m1(2) by (auto simp: dom_def)
        then have mk: "mkdir_parents ?W ?out =
                         Inr (?W\<lparr>dirs := dirs ?W \<union> set (ancestors_and_self ?out)\<rparr>)"
          by (simp add: mkdir_parents_def)
        let ?W1 = "?W\<lparr>dirs := dirs ?W \<union> set (ancestors_and_self ?out)\<rparr>"
        let ?B0 = "print ?W1 (banner ?args bg)"
        let ?gb = "generate_all tk tool ?svg ?out ?st ICON_SIZES 0 ?B0"
        obtain r' b_end where gb: "?gb = (r', b_end)" by (cases ?gb)
        note m2 = main_generating [OF exW mk bg gb]
        have d0: "dirs ?A0 = dirs ?B0" using m1(3) d_end w1 by (auto simp: print_def)
        have f0: "files ?A0 ?svg = files ?B0 ?svg" using m1(2) f_svg w1 by (simp add: print_def)
        from generate_all_two_worlds [OF d0 f0, of tk tool ?out ?st ICON_SIZES 0] ga gb
        have r: "r' = r" and se: "same_effect ?A0 a_end ?B0 b_end" by simp_all
        have fb: "files b_end = files a_end"
        proof
          fix p
          from se have "files a_end p = files b_end p
              \<or> (files a_end p = files ?A0 p \<and> files b_end p = files ?B0 p)"
            by (simp add: same_effect_def)
          then show "files b_end p = files a_end p"
            using m1(2) by (auto simp: print_def)
        qed
        have db: "dirs b_end = dirs a_end"
          using se d0 by (simp add: same_effect_def)
        show ?thesis using m1 m2 r fb db by simp
      qed
    qed
  qed
qed

theorem rerun_is_idempotent_witness:
  "fst (main sample_toolkit sample_rsvg (argv_defaults [''icon.svg''])
          (snd (main sample_toolkit sample_rsvg (argv_defaults [''icon.svg'']) sample_world)))
     = fst (main sample_toolkit sample_rsvg (argv_defaults [''icon.svg'']) sample_world)
   \<and> files (snd (main sample_toolkit sample_rsvg (argv_defaults [''icon.svg''])
          (snd (main sample_toolkit sample_rsvg (argv_defaults [''icon.svg'']) sample_world))))
     = files (snd (main sample_toolkit sample_rsvg (argv_defaults [''icon.svg'']) sample_world))"
proof -
  have h: "\<forall>(sz, f) \<in> set ICON_SIZES.
             svg_file (argv_defaults [''icon.svg'']) \<noteq> temp_svg_png sz
             \<and> svg_file (argv_defaults [''icon.svg''])
                 \<noteq> arg_output_dir (parse_args (argv_defaults [''icon.svg''])) @ [f]
             \<and> temp_svg_png sz
                 \<notin> set (ancestors_and_self
                          (arg_output_dir (parse_args (argv_defaults [''icon.svg'']))))"
    by (auto simp: temp_svg_png_def parse_args_def argv_defaults_def or_default_def)
  from rerun_is_idempotent [OF h, of sample_toolkit sample_rsvg sample_world]
  show ?thesis by simp
qed


end
